theory Spec2Isabelle
  imports Main "HOL-Library.Word"
begin

section \<open>JavaScript values, errors and callbacks\<close>

text \<open>
  The subproviders are written in continuation-passing style: every asynchronous
  function takes a callback \<^verbatim>\<open>cb(err, value)\<close>. A call of the callback is modelled as a
  value of the sum type \<open>js_error + 'a\<close> (\<open>Inl err\<close> for \<^verbatim>\<open>cb(err)\<close>, \<open>Inr v\<close> for
  \<^verbatim>\<open>cb(null, v)\<close>). Where a function can also throw, or return without ever calling
  its callback, the result is an \<open>outcome\<close>.

  The values that travel through these functions are JSON-RPC fields: hex strings,
  \<^verbatim>\<open>null\<close> and \<^verbatim>\<open>undefined\<close>; a request's id and protocol version are only copied into
  the response. A JavaScript object is an association list from property names to
  values, in insertion order; reading an absent property gives \<^verbatim>\<open>undefined\<close>, and the
  first entry of a name is the property.
\<close>

datatype js_error = Error (message: string)

datatype jsval = JUndefined | JNull | JStr string

type_synonym js_object = "(string \<times> jsval) list"

datatype 'a outcome =
    CbErr js_error    \<comment> \<open>the callback was called with an error\<close>
  | CbOk 'a           \<comment> \<open>the callback was called with \<^verbatim>\<open>(null, value)\<close>\<close>
  | Throws string     \<comment> \<open>an exception was thrown; the callback is never called\<close>
  | NoCb              \<comment> \<open>the function returned and the callback is never called\<close>

fun truthy :: "jsval \<Rightarrow> bool" where
  "truthy JUndefined = False"
| "truthy JNull = False"
| "truthy (JStr s) = (s \<noteq> [])"

definition js_get :: "js_object \<Rightarrow> string \<Rightarrow> jsval" where
  "js_get obj k = (case map_of obj k of Some v \<Rightarrow> v | None \<Rightarrow> JUndefined)"

fun js_put :: "string \<Rightarrow> jsval \<Rightarrow> js_object \<Rightarrow> js_object" where
  "js_put k v [] = [(k, v)]"
| "js_put k v ((k', v') # obj) = (if k' = k then (k, v) # obj else (k', v') # js_put k v obj)"


text \<open>
  \<^verbatim>\<open>async.parallel\<close> with two tasks: both tasks are started, and the final callback is
  called once, with the first error to arrive or with both results. Which of two
  failing tasks reports first is not determined by the program; \<open>sndFirst\<close> says that
  the second task completed before the first.
\<close>

definition parallel2 :: "bool \<Rightarrow> js_error + 'a \<Rightarrow> js_error + 'b \<Rightarrow> js_error + ('a \<times> 'b)" where
  "parallel2 sndFirst r1 r2 =
     (case r1 of
        Inl e1 \<Rightarrow> (case r2 of Inl e2 \<Rightarrow> Inl (if sndFirst then e2 else e1) | Inr _ \<Rightarrow> Inl e1)
      | Inr a \<Rightarrow> (case r2 of Inl e2 \<Rightarrow> Inl e2 | Inr b \<Rightarrow> Inr (a, b)))"

section \<open>Hex strings and buffers\<close>

type_synonym buffer = "8 word list"

definition hexDigit :: "nat \<Rightarrow> char" where
  "hexDigit d = ''0123456789abcdef'' ! (d mod 16)"

definition hexByte :: "8 word \<Rightarrow> string" where
  "hexByte b = [hexDigit (unat b div 16), hexDigit (unat b mod 16)]"

text \<open>\<^verbatim>\<open>buffer.toString('hex')\<close>: two lower-case digits per byte.\<close>

definition hexOfBuffer :: "buffer \<Rightarrow> string" where
  "hexOfBuffer bs = concat (map hexByte bs)"

text \<open>\<^verbatim>\<open>bn.toString('hex')\<close> of a big number: no padding, \<^verbatim>\<open>'0'\<close> for zero.\<close>

fun hexOfNat :: "nat \<Rightarrow> string" where
  "hexOfNat n = (if n < 16 then [hexDigit n] else hexOfNat (n div 16) @ [hexDigit (n mod 16)])"

declare hexOfNat.simps [simp del]

definition isHexPrefixed :: "string \<Rightarrow> bool" where
  "isHexPrefixed str = (take 2 str = ''0x'')"

definition addHexPrefix :: "string \<Rightarrow> string" where
  "addHexPrefix str = (if isHexPrefixed str then str else ''0x'' @ str)"

definition stripHexPrefix :: "string \<Rightarrow> string" where
  "stripHexPrefix str = (if isHexPrefixed str then drop 2 str else str)"

section \<open>FallbackAsyncStore\<close>

text \<open>
  \<^verbatim>\<open>
  function FallbackAsyncStore(fetchValue){
    self.fetch = fetchValue
    self.cache = {}
  }
  FallbackAsyncStore.prototype.get = function(address, cb){
    var code = self.cache[address]
    if (code !== undefined) {
      cb(null, code)
    } else {
      self.fetch(address, function(err, value){
        if (err) return cb(err)
        self.cache[address] = value
        cb(null, value)
      })
    }
  }
  FallbackAsyncStore.prototype.set = function(address, code, cb){
    self.cache[address] = code
    cb()
  }
  \<close>
  \<^verbatim>\<open>self.cache\<close> is a plain object, so \<^verbatim>\<open>self.cache[address]\<close> is a property access:
  the key is first coerced to a property name (a string), and two keys with the same
  name are the same entry. The coercion is the language's; it is the parameter
  \<open>keyName\<close> (for a buffer, its bytes decoded as text, so distinct buffers can share a
  name). \<open>cache\<close> holds the object's own properties: \<open>None\<close> where it has none of that
  name, \<open>Some None\<close> where it has one holding \<^verbatim>\<open>undefined\<close>. A read of a name the object does
  not own goes to its prototype, \<^verbatim>\<open>Object.prototype\<close>, whose members are defined values
  (\<open>Builtin\<close>): for such a name \<^verbatim>\<open>get\<close> answers at once with the inherited member.
  \<^verbatim>\<open>__proto__\<close> is an accessor of the prototype: reading it gives the prototype, and
  assigning to it calls a setter that may replace the prototype of the cache, after which
  every read depends on the object assigned. The model stops there: \<open>cache_write\<close> to
  that name has no result (\<open>None\<close>).

  \<^verbatim>\<open>self.fetch\<close> is network I/O. \<open>fetch s n k\<close> is what its \<open>n\<close>-th invocation, made with
  key \<open>k\<close>, calls back with: an error, a value or \<^verbatim>\<open>undefined\<close> (\<open>Inr None\<close>). When it
  calls back is up to the network: between the invocation and its callback other calls
  of \<^verbatim>\<open>get\<close> and \<^verbatim>\<open>set\<close> run, so the callback is a step of its own. \<open>pending\<close> holds the
  invocations that have not called back. \<open>fetched\<close> logs the keys \<^verbatim>\<open>self.fetch\<close> was
  invoked with and \<open>replies\<close> what the callbacks of \<^verbatim>\<open>get\<close> received, under the property
  name of their key; the source keeps neither log. \<^verbatim>\<open>set\<close> is called by the engine with
  the code it writes, a defined value.
\<close>

datatype 'v js = Undefined | Val 'v | Builtin string

definition object_prototype_names :: "string list" where
  "object_prototype_names =
     [''constructor'', ''hasOwnProperty'', ''isPrototypeOf'', ''propertyIsEnumerable'',
      ''toLocaleString'', ''toString'', ''valueOf'', ''__defineGetter__'', ''__defineSetter__'',
      ''__lookupGetter__'', ''__lookupSetter__'', ''__proto__'']"

record ('k, 'v) fallback_store =
  fetch :: "nat \<Rightarrow> 'k \<Rightarrow> js_error + 'v option"
  cache :: "string \<Rightarrow> 'v option option"
  pending :: "(nat \<times> 'k) list"
  fetched :: "'k list"
  replies :: "(string \<times> (js_error + 'v js)) list"

definition FallbackAsyncStore :: "(nat \<Rightarrow> 'k \<Rightarrow> js_error + 'v option) \<Rightarrow> ('k, 'v) fallback_store" where
  "FallbackAsyncStore fetchValue =
     \<lparr>fetch = fetchValue, cache = (\<lambda>_. None), pending = [], fetched = [], replies = []\<rparr>"

text \<open>\<^verbatim>\<open>self.cache[name]\<close>, read and written.\<close>

definition cache_read :: "('k, 'v) fallback_store \<Rightarrow> string \<Rightarrow> 'v js" where
  "cache_read s name =
     (if name = ''__proto__'' then Builtin name
      else case cache s name of
             Some (Some v) \<Rightarrow> Val v
           | Some None \<Rightarrow> Undefined
           | None \<Rightarrow> if name \<in> set object_prototype_names then Builtin name else Undefined)"

definition cache_write ::
  "string \<Rightarrow> 'v option \<Rightarrow> ('k, 'v) fallback_store \<Rightarrow> ('k, 'v) fallback_store option" where
  "cache_write name v s =
     (if name = ''__proto__'' then None else Some (s\<lparr>cache := (cache s)(name \<mapsto> v)\<rparr>))"

text \<open>\<^verbatim>\<open>get\<close>, up to its return: it answers from the cache, or invokes \<^verbatim>\<open>self.fetch\<close>.\<close>

definition FallbackAsyncStore_get ::
  "('k \<Rightarrow> string) \<Rightarrow> 'k \<Rightarrow> ('k, 'v) fallback_store \<Rightarrow> ('k, 'v) fallback_store" where
  "FallbackAsyncStore_get keyName address s =
     (case cache_read s (keyName address) of
        Undefined \<Rightarrow>
          s\<lparr>pending := pending s @ [(length (fetched s), address)],
            fetched := fetched s @ [address]\<rparr>
      | Val v \<Rightarrow> s\<lparr>replies := replies s @ [(keyName address, Inr (Val v))]\<rparr>
      | Builtin b \<Rightarrow> s\<lparr>replies := replies s @ [(keyName address, Inr (Builtin b))]\<rparr>)"

text \<open>
  The callback \<^verbatim>\<open>get\<close> gave to the \<open>n\<close>-th invocation of \<^verbatim>\<open>self.fetch\<close>. It writes the
  cache without reading it again.
\<close>

definition FallbackAsyncStore_fetched ::
  "('k \<Rightarrow> string) \<Rightarrow> nat \<Rightarrow> ('k, 'v) fallback_store \<Rightarrow> ('k, 'v) fallback_store option" where
  "FallbackAsyncStore_fetched keyName n s =
     (case map_of (pending s) n of
        None \<Rightarrow> Some s
      | Some address \<Rightarrow>
          (let s1 = s\<lparr>pending := filter (\<lambda>p. fst p \<noteq> n) (pending s)\<rparr>
           in case fetch s n address of
                Inl err \<Rightarrow> Some (s1\<lparr>replies := replies s1 @ [(keyName address, Inl err)]\<rparr>)
              | Inr v \<Rightarrow>
                  (case cache_write (keyName address) v s1 of
                     None \<Rightarrow> None
                   | Some s2 \<Rightarrow>
                       Some (s2\<lparr>replies := replies s2 @
                         [(keyName address,
                           Inr (case v of None \<Rightarrow> Undefined | Some x \<Rightarrow> Val x))]\<rparr>))))"

definition FallbackAsyncStore_set ::
  "('k \<Rightarrow> string) \<Rightarrow> 'k \<Rightarrow> 'v \<Rightarrow> ('k, 'v) fallback_store \<Rightarrow> ('k, 'v) fallback_store option" where
  "FallbackAsyncStore_set keyName address code s = cache_write (keyName address) (Some code) s"

text \<open>
  What happens to one store instance: calls of \<^verbatim>\<open>get\<close> and \<^verbatim>\<open>set\<close>, and fetches calling
  back, in any order. A \<^verbatim>\<open>get\<close> that runs to its callback before anything else happens
  is \<open>Get k\<close> followed at once by the \<open>FetchDone\<close> of its fetch.
\<close>

datatype ('k, 'v) store_input = Get 'k | Set 'k 'v | FetchDone nat

fun store_step ::
  "('k \<Rightarrow> string) \<Rightarrow> ('k, 'v) store_input \<Rightarrow> ('k, 'v) fallback_store \<Rightarrow>
   ('k, 'v) fallback_store option" where
  "store_step keyName (Get k) s = Some (FallbackAsyncStore_get keyName k s)"
| "store_step keyName (Set k v) s = FallbackAsyncStore_set keyName k v s"
| "store_step keyName (FetchDone n) s = FallbackAsyncStore_fetched keyName n s"

fun store_run ::
  "('k \<Rightarrow> string) \<Rightarrow> ('k, 'v) store_input list \<Rightarrow> ('k, 'v) fallback_store \<Rightarrow>
   ('k, 'v) fallback_store option" where
  "store_run keyName [] s = Some s"
| "store_run keyName (i # ins) s =
     (case store_step keyName i s of
        None \<Rightarrow> None
      | Some s1 \<Rightarrow> store_run keyName ins s1)"








section \<open>FallbackStorageTrie\<close>

text \<open>
  \<^verbatim>\<open>
  inherits(FallbackStorageTrie, FakeMerklePatriciaTree)
  function FallbackStorageTrie(opts) {
    FakeMerklePatriciaTree.call(self)
    self._fetchStorage = opts.fetchStorage
  }
  FallbackStorageTrie.prototype.get = function(key, cb){
    var _super = FakeMerklePatriciaTree.prototype.get.bind(self)
    _super(key, function(err, value){
      if (err) return cb(err)
      if (value) return cb(null, value)
      // if value not in tree, try network
      var keyHex = key.toString('hex')
      self._fetchStorage(keyHex, function(err, rawValue){
        if (err) return cb(err)
        var value = new Buffer(ethUtil.stripHexPrefix(rawValue), 'hex')
        cb(null, value)
      })
    })
  }
  \<close>
  The base class is the package \<^verbatim>\<open>fake-merkle-patricia-tree\<close>: a key-value store in
  memory, whose \<^verbatim>\<open>get\<close> calls back with the stored buffer, or with a falsy value for a
  key that was never put, and never with an error. It is the map \<open>tree\<close>; the inherited
  \<^verbatim>\<open>put\<close> writes it. A buffer is an object, so a stored value is always truthy.
  The hex decoder of Node's \<^verbatim>\<open>Buffer\<close> is a parameter of \<^verbatim>\<open>get\<close>: \<open>None\<close> where the
  constructor throws. \<open>storage_fetched\<close> logs the keys \<^verbatim>\<open>self._fetchStorage\<close> was called
  with; as in the store, the fetch function takes the number of earlier fetches.
\<close>

record storage_trie =
  fetchStorage :: "nat \<Rightarrow> string \<Rightarrow> js_error + string"
  tree :: "buffer \<Rightarrow> buffer option"
  storage_fetched :: "string list"

definition FallbackStorageTrie :: "(nat \<Rightarrow> string \<Rightarrow> js_error + string) \<Rightarrow> storage_trie" where
  "FallbackStorageTrie fs = \<lparr>fetchStorage = fs, tree = (\<lambda>_. None), storage_fetched = []\<rparr>"

definition FallbackStorageTrie_get ::
  "(string \<Rightarrow> buffer option) \<Rightarrow> buffer \<Rightarrow> storage_trie \<Rightarrow> buffer outcome \<times> storage_trie" where
  "FallbackStorageTrie_get fromHex key s =
     (case tree s key of
        Some v \<Rightarrow> (CbOk v, s)
      | None \<Rightarrow>
          (let keyHex = hexOfBuffer key;
               answer = fetchStorage s (length (storage_fetched s)) keyHex;
               s1 = s\<lparr>storage_fetched := storage_fetched s @ [keyHex]\<rparr>
           in case answer of
                Inl err \<Rightarrow> (CbErr err, s1)
              | Inr rawValue \<Rightarrow>
                  (case fromHex (stripHexPrefix rawValue) of
                     None \<Rightarrow> (Throws ''TypeError'', s1)
                   | Some v \<Rightarrow> (CbOk v, s1))))"

definition FallbackStorageTrie_put :: "buffer \<Rightarrow> buffer \<Rightarrow> storage_trie \<Rightarrow> storage_trie" where
  "FallbackStorageTrie_put key v s = s\<lparr>tree := (tree s)(key \<mapsto> v)\<rparr>"

text \<open>
  A hex decoder for concrete runs: it accepts an even number of hex digits and refuses
  anything else. Node versions differ on malformed input (some throw, some truncate),
  which is why \<^verbatim>\<open>get\<close> takes the decoder as a parameter.
\<close>

definition hexVal :: "char \<Rightarrow> nat option" where
  "hexVal c =
     (let n = (of_char c :: nat)
      in if 48 \<le> n \<and> n \<le> 57 then Some (n - 48)
         else if 97 \<le> n \<and> n \<le> 102 then Some (n - 87)
         else if 65 \<le> n \<and> n \<le> 70 then Some (n - 55)
         else None)"

fun hexDecode :: "string \<Rightarrow> buffer option" where
  "hexDecode [] = Some []"
| "hexDecode [c] = None"
| "hexDecode (c # d # cs) =
     (case hexVal c of
        None \<Rightarrow> None
      | Some h \<Rightarrow>
          (case hexVal d of
             None \<Rightarrow> None
           | Some l \<Rightarrow>
               (case hexDecode cs of
                  None \<Rightarrow> None
                | Some bs \<Rightarrow> Some (word_of_nat (16 * h + l) # bs))))"

section \<open>The upstream provider\<close>

text \<open>
  \<^verbatim>\<open>self.rootProvider.sendAsync(createPayload(payload), cb)\<close> sends a request up the
  dispatch chain. The provider is a collaborator: \<open>respond\<close> is what it answers, and
  \<open>sent\<close> logs the requests it was given, in order. \<^verbatim>\<open>createPayload\<close> only adds an id
  and the protocol version.
\<close>

record rpc_request =
  rq_method :: string
  rq_params :: "jsval list"

record rpc_response =
  result :: jsval

record provider =
  respond :: "rpc_request \<Rightarrow> js_error + rpc_response"
  sent :: "rpc_request list"

definition emitPayload :: "rpc_request \<Rightarrow> provider \<Rightarrow> (js_error + rpc_response) \<times> provider" where
  "emitPayload payload root = (respond root payload, root\<lparr>sent := sent root @ [payload]\<rparr>)"

text \<open>
  \<^verbatim>\<open>
  self._emitPayload({ method: ..., params: [...] }, function(err, results){
    if (err) return cb(err)
    cb(null, results.result)
  })
  \<close>
\<close>

definition fetchResult :: "rpc_request \<Rightarrow> provider \<Rightarrow> (js_error + jsval) \<times> provider" where
  "fetchResult payload root =
     (case emitPayload payload root of
        (Inl err, root1) \<Rightarrow> (Inl err, root1)
      | (Inr results, root1) \<Rightarrow> (Inr (result results), root1))"

definition fetchAccountStorage :: "string \<Rightarrow> string \<Rightarrow> string \<Rightarrow> provider \<Rightarrow> (js_error + jsval) \<times> provider" where
  "fetchAccountStorage address key blockNumber =
     fetchResult \<lparr>rq_method = ''eth_getStorageAt'', rq_params = [JStr address, JStr key, JStr blockNumber]\<rparr>"

definition fetchAccountBalance :: "string \<Rightarrow> string \<Rightarrow> provider \<Rightarrow> (js_error + jsval) \<times> provider" where
  "fetchAccountBalance address blockNumber =
     fetchResult \<lparr>rq_method = ''eth_getBalance'', rq_params = [JStr address, JStr blockNumber]\<rparr>"

definition fetchAccountNonce :: "string \<Rightarrow> string \<Rightarrow> provider \<Rightarrow> (js_error + jsval) \<times> provider" where
  "fetchAccountNonce address blockNumber =
     fetchResult \<lparr>rq_method = ''eth_getTransactionCount'', rq_params = [JStr address, JStr blockNumber]\<rparr>"

definition fetchAccountCode :: "string \<Rightarrow> string \<Rightarrow> provider \<Rightarrow> (js_error + jsval) \<times> provider" where
  "fetchAccountCode address blockNumber =
     fetchResult \<lparr>rq_method = ''eth_getCode'', rq_params = [JStr address, JStr blockNumber]\<rparr>"

section \<open>The account lookup of VmSubprovider\<close>

text \<open>
  \<^verbatim>\<open>
  VmSubprovider.prototype._fetchAccount = function(blockNumber, address, cb){
    var addressHex = ethUtil.addHexPrefix(address.toString('hex'))
    async.parallel({
      nonce: self._fetchAccountNonce.bind(self, addressHex, blockNumber),
      balance: self._fetchAccountBalance.bind(self, addressHex, blockNumber),
    }, function(err, results){
      if (err) return cb(err)
      results._exists = results.nonce !== '0x0' || results.balance != '0x0' || results._code != '0x'
      var account = new Account(results)
      cb(null, account)
    })
  }
  \<close>
  \<^verbatim>\<open>results\<close> is the object \<^verbatim>\<open>async.parallel\<close> builds, with one property per task. The
  account handed to the callback is that object with the flag \<^verbatim>\<open>_exists\<close>
  (\<^verbatim>\<open>new Account\<close> is the engine's). On a string, \<^verbatim>\<open>null\<close> or \<^verbatim>\<open>undefined\<close>, both
  \<^verbatim>\<open>!==\<close> and \<^verbatim>\<open>!=\<close> against a string literal are inequality of values.
\<close>

record account_state =
  acct_fields :: js_object
  acct_exists :: bool

definition fetchAccount ::
  "bool \<Rightarrow> string \<Rightarrow> buffer \<Rightarrow> provider \<Rightarrow> account_state outcome \<times> provider" where
  "fetchAccount sndFirst blockNumber address root =
     (let addressHex = addHexPrefix (hexOfBuffer address);
          (nonce, root1) = fetchAccountNonce addressHex blockNumber root;
          (balance, root2) = fetchAccountBalance addressHex blockNumber root1
      in case parallel2 sndFirst nonce balance of
           Inl err \<Rightarrow> (CbErr err, root2)
         | Inr (n, b) \<Rightarrow>
             (let results = [(''nonce'', n), (''balance'', b)];
                  exists = (js_get results ''nonce'' \<noteq> JStr ''0x0'' \<or>
                            js_get results ''balance'' \<noteq> JStr ''0x0'' \<or>
                            js_get results ''_code'' \<noteq> JStr ''0x'')
              in (CbOk \<lparr>acct_fields = results, acct_exists = exists\<rparr>, root2)))"

text \<open>
  The storage trie of an account, bound to \<^verbatim>\<open>eth_getStorageAt\<close> at the block
  (\<^verbatim>\<open>_createAccountStorageTrie\<close>), and the code store of one run
  (\<^verbatim>\<open>new FallbackAsyncStore(function(address, cb){ self._fetchAccountCode(address, blockNumber, cb) })\<close>)
  take their fetch functions from these.
\<close>

text \<open>
  An upstream node for concrete runs, holding an account that does not exist: nonce
  \<^verbatim>\<open>0x0\<close>, balance \<^verbatim>\<open>0x0\<close>, code \<^verbatim>\<open>0x\<close>; every storage slot reads \<^verbatim>\<open>0x01\<close>.
\<close>

definition empty_node :: "rpc_request \<Rightarrow> js_error + rpc_response" where
  "empty_node rq =
     (if rq_method rq = ''eth_getCode'' then Inr \<lparr>result = JStr ''0x''\<rparr>
      else Inr \<lparr>result = JStr ''0x0''\<rparr>)"

definition slot_one :: "nat \<Rightarrow> string \<Rightarrow> js_error + string" where
  "slot_one n keyHex = Inr ''0x01''"

section \<open>VmSubprovider: the engine's outcome and the response\<close>

text \<open>
  \<^verbatim>\<open>
  const NOT_ENOUGH_FUNDS = 'sender doesn\'t have enough funds to send tx.'
  const WRONG_NONCE = 'the tx doesn\'t have the correct nonce. account has nonce of:'
  const VM_INTERNAL_ERRORS = [NOT_ENOUGH_FUNDS, WRONG_NONCE]
  function isNormalVmError(message){
    var matchedErrors = VM_INTERNAL_ERRORS.filter(function(errorPattern){
      var submessage = message.slice(0,errorPattern.length)
      return submessage === errorPattern
    })
    return matchedErrors.length === 1
  }
  \<close>
\<close>

definition NOT_ENOUGH_FUNDS :: string where
  "NOT_ENOUGH_FUNDS = ''sender doesn't have enough funds to send tx.''"

definition WRONG_NONCE :: string where
  "WRONG_NONCE = ''the tx doesn't have the correct nonce. account has nonce of:''"

definition VM_INTERNAL_ERRORS :: "string list" where
  "VM_INTERNAL_ERRORS = [NOT_ENOUGH_FUNDS, WRONG_NONCE]"

definition isNormalVmError :: "string \<Rightarrow> bool" where
  "isNormalVmError msg =
     (let matchedErrors =
            filter (\<lambda>errorPattern. take (length errorPattern) msg = errorPattern) VM_INTERNAL_ERRORS
      in length matchedErrors = 1)"

text \<open>
  The execution engine (\<^verbatim>\<open>ethereumjs-vm\<close>) is an opaque collaborator: \<^verbatim>\<open>vm.runTx\<close> calls
  back with an error or with its results, of which the subprovider reads
  \<^verbatim>\<open>results.vm.returnValue\<close> (a buffer, or \<^verbatim>\<open>undefined\<close>) and \<^verbatim>\<open>results.gasUsed\<close> (a big
  number). \<^verbatim>\<open>runVm\<close> passes to its own callback either the engine's results or the
  object \<^verbatim>\<open>{ error: err }\<close>, which has no other property.
\<close>

record vm_results =
  returnValue :: "buffer option"
  gasUsed :: nat

datatype run_results = ErrorOnly js_error | EngineResults vm_results

fun results_error :: "run_results \<Rightarrow> js_error option" where
  "results_error (ErrorOnly err) = Some err"
| "results_error (EngineResults r) = None"

fun results_gasUsed :: "run_results \<Rightarrow> nat option" where
  "results_gasUsed (ErrorOnly err) = None"
| "results_gasUsed (EngineResults r) = Some (gasUsed r)"

fun results_vm :: "run_results \<Rightarrow> vm_results option" where
  "results_vm (ErrorOnly err) = None"
| "results_vm (EngineResults r) = Some r"

text \<open>
  The callback \<^verbatim>\<open>runVm\<close> gives to \<^verbatim>\<open>vm.runTx\<close>, after it has reopened the gate:
  \<^verbatim>\<open>
  if (err) {
    if (isNormalVmError(err.message)) {
      return cb(null, { error: err })
    } else {
      return cb(err)
    }
  }
  cb(null, results)
  \<close>
\<close>

definition runVm_result :: "js_error + vm_results \<Rightarrow> js_error + run_results" where
  "runVm_result r =
     (case r of
        Inl err \<Rightarrow> if isNormalVmError (message err) then Inr (ErrorOnly err) else Inl err
      | Inr results \<Rightarrow> Inr (EngineResults results))"

record payload =
  p_id :: jsval
  p_jsonrpc :: jsval
  p_method :: string
  p_params :: "js_object list"

text \<open>
  The callback \<^verbatim>\<open>sendAsync\<close> gives to \<^verbatim>\<open>runVm\<close>:
  \<^verbatim>\<open>
  if (err) return cb(err)
  var resultObj = { id: payload.id, jsonrpc: payload.jsonrpc }
  switch (payload.method) {
    case 'eth_call':
      var returnValue = null
      if (results.error) {
        returnValue = '0x'
      } else if (results.vm.returnValue) {
        returnValue = ethUtil.addHexPrefix(results.vm.returnValue.toString('hex'))
      }
      resultObj.result = returnValue
      return cb(null, resultObj)
    case 'eth_estimateGas':
      var returnValue = ethUtil.addHexPrefix(results.gasUsed.toString('hex'))
      resultObj.result = returnValue
      return cb(null, resultObj)
  }
  \<close>
  Reading a property of \<^verbatim>\<open>undefined\<close> throws a TypeError. The switch has no default
  case: for any other method the function returns without calling \<^verbatim>\<open>cb\<close>.
\<close>

definition sendAsync_cb :: "payload \<Rightarrow> js_error + run_results \<Rightarrow> js_object outcome" where
  "sendAsync_cb payload r =
     (case r of
        Inl err \<Rightarrow> CbErr err
      | Inr results \<Rightarrow>
          (let resultObj = [(''id'', p_id payload), (''jsonrpc'', p_jsonrpc payload)]
           in if p_method payload = ''eth_call'' then
                (if results_error results \<noteq> None then
                   CbOk (js_put ''result'' (JStr ''0x'') resultObj)
                 else
                   (case results_vm results of
                      None \<Rightarrow> Throws ''TypeError''
                    | Some vm \<Rightarrow>
                        (case returnValue vm of
                           Some b \<Rightarrow>
                             CbOk (js_put ''result'' (JStr (addHexPrefix (hexOfBuffer b))) resultObj)
                         | None \<Rightarrow> CbOk (js_put ''result'' JNull resultObj))))
              else if p_method payload = ''eth_estimateGas'' then
                (case results_gasUsed results of
                   None \<Rightarrow> Throws ''TypeError''
                 | Some g \<Rightarrow> CbOk (js_put ''result'' (JStr (addHexPrefix (hexOfNat g))) resultObj))
              else NoCb))"

section \<open>The concurrency gate\<close>

text \<open>
  Modelled from the spec: \<^verbatim>\<open>util/stoplight.js\<close>, which \<^verbatim>\<open>vm.js\<close> requires as
  \<^verbatim>\<open>Stoplight\<close>, is not among the sources. The specification gives the gate two states,
  OPEN and CLOSED, a FIFO queue of pending continuations, and three operations:
  \<^verbatim>\<open>close()\<close> (a no-op on a closed gate), \<^verbatim>\<open>open()\<close> (releases all queued continuations in
  FIFO order) and \<^verbatim>\<open>await(continuation)\<close> (if OPEN, schedules the continuation
  immediately; if CLOSED, enqueues it). The source calls them \<^verbatim>\<open>stop\<close>, \<^verbatim>\<open>go\<close> and
  \<^verbatim>\<open>await\<close>. \<open>Stoplight_go\<close> and \<open>Stoplight_await\<close> return the continuations to run now,
  in order; a continuation that \<^verbatim>\<open>await\<close> finds the gate open for runs at once.
\<close>

record 'c stoplight =
  isOpen :: bool
  queue :: "'c list"

definition Stoplight_stop :: "'c stoplight \<Rightarrow> 'c stoplight" where
  "Stoplight_stop g = g\<lparr>isOpen := False\<rparr>"

definition Stoplight_go :: "'c stoplight \<Rightarrow> 'c list \<times> 'c stoplight" where
  "Stoplight_go g = (queue g, g\<lparr>isOpen := True, queue := []\<rparr>)"

definition Stoplight_await :: "'c \<Rightarrow> 'c stoplight \<Rightarrow> 'c list \<times> 'c stoplight" where
  "Stoplight_await c g = (if isOpen g then ([c], g) else ([], g\<lparr>queue := queue g @ [c]\<rparr>))"

section \<open>VmSubprovider: requests through the gate\<close>

text \<open>
  \<^verbatim>\<open>
  VmSubprovider.prototype.runVm = function(payload, cb){
    self._ready.await(function(){
      // lock processing - one vm at a time
      self._ready.stop()
      var blockData = self.rootProvider.currentBlock
      var block = blockFromBlockData(blockData)
      var blockNumber = ethUtil.addHexPrefix(blockData.number.toString('hex'))
      ...
      var txParams = payload.params[0]
      var tx = new Transaction({
        to: txParams.to, from: txParams.from, value: txParams.value, data: txParams.data,
        gasLimit: txParams.gas || block.gasLimit,
        gasPrice: txParams.gasPrice,
      })
      tx.from = new Buffer(ethUtil.stripHexPrefix(txParams.from), 'hex')
      vm.runTx({ tx: tx, block: block }, function(err, results) {
        // unlock vm
        self._ready.go()
        ...
      })
    })
  }
  \<close>
  Several requests are in progress at a time, so the subprovider is a state machine
  over two kinds of input: a request arrives (\<^verbatim>\<open>sendAsync\<close> is called), or the engine
  finishes a run it was given (the callback of \<^verbatim>\<open>vm.runTx\<close> is called, with the
  engine's outcome). Invocations are numbered in the order of arrival. The state holds
  the gate \<^verbatim>\<open>self._ready\<close>, whose continuations each carry the payload they closed over,
  the runs the engine has been given and has not finished, and a trace of what
  happened. The block number and \<^verbatim>\<open>block.gasLimit\<close> are those of
  \<^verbatim>\<open>rootProvider.currentBlock\<close>.

  Between \<^verbatim>\<open>stop()\<close> and \<^verbatim>\<open>vm.runTx\<close> the continuation can throw, and then it never
  reaches the engine: \<^verbatim>\<open>payload.params[0]\<close> is \<^verbatim>\<open>undefined\<close> for a payload without
  parameters, and reading \<^verbatim>\<open>txParams.to\<close> throws; \<^verbatim>\<open>ethUtil.stripHexPrefix\<close> returns what
  is not a string as it is, and \<^verbatim>\<open>new Buffer(undefined, 'hex')\<close> throws, so a transaction
  without \<^verbatim>\<open>from\<close> throws; and Node's hex decoder may refuse the sender's string (it is
  the parameter \<open>vm_fromHex\<close>, \<open>None\<close> where it throws). The constructors of
  \<^verbatim>\<open>Transaction\<close> and \<^verbatim>\<open>Block\<close> belong to libraries and are taken to accept what they
  are given. An exception ends the continuation that threw; what it does to the caller
  of a released continuation is the gate's business, which the specification does not
  describe, and the other released continuations and the response are taken to proceed.
\<close>

record tx_data =
  tx_to :: jsval
  tx_from :: buffer
  tx_value :: jsval
  tx_data :: jsval
  tx_gasLimit :: jsval
  tx_gasPrice :: jsval

datatype vm_event =
    GateStop nat                    \<comment> \<open>\<^verbatim>\<open>self._ready.stop()\<close> by this invocation\<close>
  | GateGo nat                      \<comment> \<open>\<^verbatim>\<open>self._ready.go()\<close> by this invocation\<close>
  | EngineStart nat tx_data string  \<comment> \<open>\<^verbatim>\<open>vm.runTx\<close> is called, with the block number of its state lookups\<close>
  | EngineEnd nat                   \<comment> \<open>the engine calls back\<close>
  | Respond nat "js_object outcome" \<comment> \<open>what became of the callback of \<^verbatim>\<open>sendAsync\<close>\<close>
  | Uncaught nat string             \<comment> \<open>the continuation threw after \<^verbatim>\<open>stop()\<close>, before it reached the engine\<close>

datatype vm_input =
    Request payload
  | EngineDone nat "js_error + vm_results"

record vm_state =
  ready :: "(nat \<times> payload) stoplight"
  vm_fromHex :: "string \<Rightarrow> buffer option"
  vm_blockNumber :: buffer
  vm_blockGasLimit :: jsval
  next_id :: nat
  running :: "(nat \<times> payload) list"
  trace :: "vm_event list"

text \<open>The constructor leaves the gate open: \<^verbatim>\<open>self._ready = new Stoplight(); self._ready.go()\<close>.\<close>

definition VmSubprovider :: "(string \<Rightarrow> buffer option) \<Rightarrow> buffer \<Rightarrow> jsval \<Rightarrow> vm_state" where
  "VmSubprovider fromHex bn gl =
     \<lparr>ready = \<lparr>isOpen = True, queue = []\<rparr>, vm_fromHex = fromHex, vm_blockNumber = bn,
      vm_blockGasLimit = gl, next_id = 0, running = [], trace = []\<rparr>"

text \<open>
  The transaction handed to the engine, with \<^verbatim>\<open>tx.from\<close> the bytes of the sender; \<open>None\<close>
  where building it throws.
\<close>

definition senderBytes :: "(string \<Rightarrow> buffer option) \<Rightarrow> jsval \<Rightarrow> buffer option" where
  "senderBytes fromHex sender =
     (case sender of
        JStr str \<Rightarrow> fromHex (stripHexPrefix str)
      | JUndefined \<Rightarrow> None
      | JNull \<Rightarrow> None)"

definition makeTx :: "(string \<Rightarrow> buffer option) \<Rightarrow> js_object \<Rightarrow> jsval \<Rightarrow> tx_data option" where
  "makeTx fromHex txParams gl =
     (case senderBytes fromHex (js_get txParams ''from'') of
        None \<Rightarrow> None
      | Some bytes \<Rightarrow>
          Some \<lparr>tx_to = js_get txParams ''to'',
                tx_from = bytes,
                tx_value = js_get txParams ''value'',
                tx_data = js_get txParams ''data'',
                tx_gasLimit = (if truthy (js_get txParams ''gas'') then js_get txParams ''gas'' else gl),
                tx_gasPrice = js_get txParams ''gasPrice''\<rparr>)"

text \<open>The continuation given to \<^verbatim>\<open>await\<close>, up to the call of \<^verbatim>\<open>vm.runTx\<close>.\<close>

definition runVm_continuation :: "nat \<times> payload \<Rightarrow> vm_state \<Rightarrow> vm_state" where
  "runVm_continuation c s =
     (let i = fst c;
          s1 = s\<lparr>ready := Stoplight_stop (ready s), trace := trace s @ [GateStop i]\<rparr>
      in case p_params (snd c) of
           [] \<Rightarrow> s1\<lparr>trace := trace s1 @ [Uncaught i ''TypeError'']\<rparr>
         | txParams # _ \<Rightarrow>
             (case makeTx (vm_fromHex s) txParams (vm_blockGasLimit s) of
                None \<Rightarrow> s1\<lparr>trace := trace s1 @ [Uncaught i ''TypeError'']\<rparr>
              | Some tx \<Rightarrow>
                  s1\<lparr>running := running s1 @ [c],
                     trace := trace s1 @
                       [EngineStart i tx (addHexPrefix (hexOfBuffer (vm_blockNumber s)))]\<rparr>))"

fun vm_step :: "vm_input \<Rightarrow> vm_state \<Rightarrow> vm_state" where
  "vm_step (Request payload) s =
     (let i = next_id s;
          (now, g) = Stoplight_await (i, payload) (ready s)
      in fold runVm_continuation now (s\<lparr>ready := g, next_id := Suc i\<rparr>))"
| "vm_step (EngineDone i r) s =
     (case map_of (running s) i of
        None \<Rightarrow> s
      | Some payload \<Rightarrow>
          (let (released, g) = Stoplight_go (ready s);
               s1 = s\<lparr>ready := g,
                      running := filter (\<lambda>c. fst c \<noteq> i) (running s),
                      trace := trace s @ [EngineEnd i, GateGo i]\<rparr>;
               s2 = fold runVm_continuation released s1
           in s2\<lparr>trace := trace s2 @ [Respond i (sendAsync_cb payload (runVm_result r))]\<rparr>))"

fun vm_run :: "vm_input list \<Rightarrow> vm_state \<Rightarrow> vm_state" where
  "vm_run [] s = s"
| "vm_run (e # es) s = vm_run es (vm_step e s)"

text \<open>The requests among the inputs, numbered in the order of arrival from \<open>n\<close> on.\<close>

fun requests_from :: "nat \<Rightarrow> vm_input list \<Rightarrow> (nat \<times> payload) list" where
  "requests_from n [] = []"
| "requests_from n (Request payload # es) = (n, payload) # requests_from (Suc n) es"
| "requests_from n (EngineDone i r # es) = requests_from n es"

text \<open>Counting the events of one invocation in a trace.\<close>

fun is_start :: "nat \<Rightarrow> vm_event \<Rightarrow> bool" where
  "is_start i (EngineStart j _ _) = (j = i)"
| "is_start i _ = False"

definition stop_count :: "nat \<Rightarrow> vm_event list \<Rightarrow> nat" where
  "stop_count i tr = count_list tr (GateStop i)"

definition go_count :: "nat \<Rightarrow> vm_event list \<Rightarrow> nat" where
  "go_count i tr = count_list tr (GateGo i)"

definition end_count :: "nat \<Rightarrow> vm_event list \<Rightarrow> nat" where
  "end_count i tr = count_list tr (EngineEnd i)"

definition start_count :: "nat \<Rightarrow> vm_event list \<Rightarrow> nat" where
  "start_count i tr = length (filter (is_start i) tr)"

text \<open>Payloads and engine outcomes for concrete runs.\<close>

definition call_payload :: payload where
  "call_payload =
     \<lparr>p_id = JStr ''1'', p_jsonrpc = JStr ''2.0'', p_method = ''eth_call'',
      p_params = [[(''from'', JStr ''0xdead00000000000000000000000000000000beef''),
                   (''to'', JStr ''0x00000000000000000000000000000000000000aa'')]]\<rparr>"

definition estimate_payload :: payload where
  "estimate_payload = call_payload\<lparr>p_method := ''eth_estimateGas''\<rparr>"

definition nonce_error :: js_error where
  "nonce_error = Error (WRONG_NONCE @ '' 3 tx has nonce of: 0'')"

definition funds_error :: js_error where
  "funds_error = Error (NOT_ENOUGH_FUNDS @ '' The upfront cost is: 21000'')"

definition plain_results :: vm_results where
  "plain_results = \<lparr>returnValue = None, gasUsed = 21000\<rparr>"

text \<open>A call that names no sender, as \<^verbatim>\<open>eth_call\<close> allows.\<close>

definition anonymous_call :: payload where
  "anonymous_call =
     \<lparr>p_id = JStr ''2'', p_jsonrpc = JStr ''2.0'', p_method = ''eth_call'',
      p_params = [[(''to'', JStr ''0x00000000000000000000000000000000000000aa''),
                   (''data'', JStr ''0x06fdde03'')]]\<rparr>"

text \<open>
  The invariant of the subprovider's reachable states, for each invocation: it has
  called \<^verbatim>\<open>go\<close> as often as its run has completed; its runs started are those completed
  and those in progress; it started the engine only after closing the gate; and it
  has closed the gate or is queued at most once, and not at all before it arrives.
\<close>

definition vm_inv :: "vm_state \<Rightarrow> bool" where
  "vm_inv s = (\<forall>i.
     go_count i (trace s) = end_count i (trace s) \<and>
     start_count i (trace s) = end_count i (trace s) + count_list (map fst (running s)) i \<and>
     start_count i (trace s) \<le> stop_count i (trace s) \<and>
     stop_count i (trace s) + count_list (map fst (queue (ready s))) i \<le> (if i < next_id s then 1 else 0))"

text \<open>A twenty-byte address for concrete runs.\<close>

definition dead_address :: buffer where
  "dead_address = [0xde, 0xad, 0, 0, 0, 0, 0, 0, 0, 0, 0, 0, 0, 0, 0, 0, 0, 0, 0xbe, 0xef]"

text \<open>The transaction of \<open>call_payload\<close>, at a block gas limit of \<^verbatim>\<open>0x47e7c4\<close>.\<close>

definition call_tx :: tx_data where
  "call_tx =
     \<lparr>tx_to = JStr ''0x00000000000000000000000000000000000000aa'',
      tx_from = dead_address,
      tx_value = JUndefined,
      tx_data = JUndefined,
      tx_gasLimit = JStr ''0x47e7c4'',
      tx_gasPrice = JUndefined\<rparr>"

text \<open>
  For concrete runs: keys that are strings, which are their own property names; a
  remote that is down and one that serves the value 7.
\<close>

definition string_key :: "string \<Rightarrow> string" where
  "string_key k = k"


definition remote_seven :: "nat \<Rightarrow> string \<Rightarrow> js_error + nat option" where
  "remote_seven n k = Inr (Some 7)"

section \<open>HookedWalletSubprovider\<close>























section \<open>Properties of FallbackAsyncStore\<close>








text \<open>
  Two keys with the same property name are one entry of the cache, and a name that
  \<^verbatim>\<open>Object.prototype\<close> defines is answered with the inherited member, without a fetch.
\<close>

lemma aliasing_keys_share_an_entry:
  assumes "keyName kA = keyName kB" and "keyName kA \<noteq> ''__proto__''"
  shows "\<exists>s'. store_run keyName [Set kA a, Set kB b, Get kA] s = Some s' \<and>
     replies s' = replies s @ [(keyName kA, Inr (Val b))] \<and> fetched s' = fetched s"
  using assms
  by (simp add: FallbackAsyncStore_set_def cache_write_def FallbackAsyncStore_get_def
      cache_read_def)

lemma inherited_name_is_not_fetched:
  "store_run string_key [Get ''propertyIsEnumerable''] (FallbackAsyncStore f) =
     Some ((FallbackAsyncStore f)
       \<lparr>replies := [(''propertyIsEnumerable'', Inr (Builtin ''propertyIsEnumerable''))]\<rparr>)"
  by (simp add: FallbackAsyncStore_get_def cache_read_def FallbackAsyncStore_def string_key_def
      object_prototype_names_def)

lemma overlapping_gets_fetch_twice:
  "fetched (the (store_run string_key [Get ''0xaa'', Get ''0xaa''] (FallbackAsyncStore remote_seven))) =
     [''0xaa'', ''0xaa'']"
  by (simp add: FallbackAsyncStore_get_def cache_read_def FallbackAsyncStore_def string_key_def
      object_prototype_names_def)







section \<open>Properties of FallbackStorageTrie\<close>

lemma get_keeps_tree: "tree (snd (FallbackStorageTrie_get fromHex key s)) = tree s"
  by (simp add: FallbackStorageTrie_get_def Let_def split: option.splits sum.splits)

lemma get_miss_fetches:
  "tree s key = None \<Longrightarrow>
   storage_fetched (snd (FallbackStorageTrie_get fromHex key s)) = storage_fetched s @ [hexOfBuffer key]"
  by (simp add: FallbackStorageTrie_get_def Let_def split: option.splits sum.splits)

lemma put_then_get:
  "FallbackStorageTrie_get fromHex key (FallbackStorageTrie_put key v s) =
     (CbOk v, FallbackStorageTrie_put key v s)"
  by (simp add: FallbackStorageTrie_get_def FallbackStorageTrie_put_def)

lemma slot_first_get:
  "fst (FallbackStorageTrie_get hexDecode [0] (FallbackStorageTrie slot_one)) = CbOk [1]"
  by (simp add: FallbackStorageTrie_get_def FallbackStorageTrie_def slot_one_def Let_def
      stripHexPrefix_def isHexPrefixed_def hexVal_def)

text \<open>
  Claim C5 says that \<^verbatim>\<open>FallbackStorageTrie.get\<close> caches the fetched value in the trie, so
  that a second \<^verbatim>\<open>get\<close> of the same never-written slot does not fetch again. The code
  does not: \<^verbatim>\<open>get\<close> never writes the tree, whatever it is called with, and on a slot
  that is not in the tree two \<^verbatim>\<open>get\<close> calls in a row invoke the storage fetch twice.
  \<^verbatim>\<open>FallbackAsyncStore.get\<close> has the assignment \<^verbatim>\<open>self.cache[address] = value\<close> that
  this function lacks.
\<close>

theorem storage_get_never_caches:
  "tree (snd (FallbackStorageTrie_get fromHex key s)) = tree s \<and>
   (tree s key = None \<longrightarrow>
      storage_fetched (snd (FallbackStorageTrie_get fromHex key
          (snd (FallbackStorageTrie_get fromHex key s)))) =
        storage_fetched s @ [hexOfBuffer key, hexOfBuffer key])"
proof (intro conjI impI)
  show "tree (snd (FallbackStorageTrie_get fromHex key s)) = tree s"
    by (rule get_keeps_tree)
next
  assume miss: "tree s key = None"
  let ?s1 = "snd (FallbackStorageTrie_get fromHex key s)"
  have miss1: "tree ?s1 key = None"
    using miss by (simp add: get_keeps_tree)
  show "storage_fetched (snd (FallbackStorageTrie_get fromHex key ?s1)) =
      storage_fetched s @ [hexOfBuffer key, hexOfBuffer key]"
    by (simp add: get_miss_fetches [OF miss1] get_miss_fetches [OF miss])
qed

theorem storage_get_never_caches_witness:
  "fst (FallbackStorageTrie_get hexDecode [0] (FallbackStorageTrie slot_one)) = CbOk [1] \<and>
   storage_fetched (snd (FallbackStorageTrie_get hexDecode [0]
      (snd (FallbackStorageTrie_get hexDecode [0] (FallbackStorageTrie slot_one))))) =
     [''00'', ''00'']"
proof -
  have miss: "tree (FallbackStorageTrie slot_one) [0] = None"
    by (simp add: FallbackStorageTrie_def)
  have fresh: "storage_fetched (FallbackStorageTrie slot_one) = []"
    by (simp add: FallbackStorageTrie_def)
  have key: "hexOfBuffer [0] = ''00''"
    by (simp add: hexOfBuffer_def hexByte_def hexDigit_def)
  note inst = storage_get_never_caches [of hexDecode "[0]" "FallbackStorageTrie slot_one"]
  from mp [OF conjunct2 [OF inst] miss] fresh key slot_first_get show ?thesis
    by simp
qed

section \<open>Properties of the account lookup\<close>

lemma hex_dead_address: "hexOfBuffer dead_address = ''dead00000000000000000000000000000000beef''"
  by (simp add: dead_address_def hexOfBuffer_def hexByte_def hexDigit_def)

lemma fetchResult_sent: "sent (snd (fetchResult rq root)) = sent root @ [rq]"
  by (simp add: fetchResult_def emitPayload_def split: sum.splits)

lemma fetchResult_respond: "respond (snd (fetchResult rq root)) = respond root"
  by (simp add: fetchResult_def emitPayload_def split: sum.splits)

text \<open>
  Claim C2 says that the account lookup issues three fetches (nonce, balance and code)
  and derives the flag as nonce != 0 || balance != 0 || code != empty. The code starts
  two tasks, for the nonce and for the balance, and no \<^verbatim>\<open>eth_getCode\<close> request;
  \<^verbatim>\<open>results._code\<close> is therefore \<^verbatim>\<open>undefined\<close>, the third disjunct is true, and every
  account the lookup calls back with has \<^verbatim>\<open>_exists\<close> set, also one with nonce
  \<^verbatim>\<open>0x0\<close>, balance \<^verbatim>\<open>0x0\<close> and no code.
\<close>

theorem fetchAccount_exists_always:
  "sent (snd (fetchAccount sndFirst blockNumber address root)) =
     sent root @
       [\<lparr>rq_method = ''eth_getTransactionCount'',
          rq_params = [JStr (addHexPrefix (hexOfBuffer address)), JStr blockNumber]\<rparr>,
        \<lparr>rq_method = ''eth_getBalance'',
          rq_params = [JStr (addHexPrefix (hexOfBuffer address)), JStr blockNumber]\<rparr>] \<and>
   (\<forall>acct. fst (fetchAccount sndFirst blockNumber address root) = CbOk acct \<longrightarrow> acct_exists acct)"
proof (intro conjI allI impI)
  show "sent (snd (fetchAccount sndFirst blockNumber address root)) =
     sent root @
       [\<lparr>rq_method = ''eth_getTransactionCount'',
          rq_params = [JStr (addHexPrefix (hexOfBuffer address)), JStr blockNumber]\<rparr>,
        \<lparr>rq_method = ''eth_getBalance'',
          rq_params = [JStr (addHexPrefix (hexOfBuffer address)), JStr blockNumber]\<rparr>]"
    by (simp add: fetchAccount_def fetchAccountNonce_def fetchAccountBalance_def Let_def
        split_beta fetchResult_sent split: sum.splits)
next
  fix acct
  assume "fst (fetchAccount sndFirst blockNumber address root) = CbOk acct"
  then show "acct_exists acct"
    by (auto simp: fetchAccount_def Let_def split_beta js_get_def split: sum.splits)
qed

theorem fetchAccount_exists_always_witness:
  "fst (fetchAccount False ''0x10'' dead_address \<lparr>respond = empty_node, sent = []\<rparr>) =
     CbOk \<lparr>acct_fields = [(''nonce'', JStr ''0x0''), (''balance'', JStr ''0x0'')],
           acct_exists = True\<rparr> \<and>
   sent (snd (fetchAccount False ''0x10'' dead_address \<lparr>respond = empty_node, sent = []\<rparr>)) =
     [\<lparr>rq_method = ''eth_getTransactionCount'',
        rq_params = [JStr ''0xdead00000000000000000000000000000000beef'', JStr ''0x10'']\<rparr>,
      \<lparr>rq_method = ''eth_getBalance'',
        rq_params = [JStr ''0xdead00000000000000000000000000000000beef'', JStr ''0x10'']\<rparr>]"
proof -
  let ?root = "\<lparr>respond = empty_node, sent = []\<rparr>"
  note inst = fetchAccount_exists_always [of False "''0x10''" dead_address ?root]
  have prefixed: "addHexPrefix (hexOfBuffer dead_address) =
      ''0xdead00000000000000000000000000000000beef''"
    by (simp add: hex_dead_address addHexPrefix_def isHexPrefixed_def)
  have account: "fst (fetchAccount False ''0x10'' dead_address ?root) =
      CbOk \<lparr>acct_fields = [(''nonce'', JStr ''0x0''), (''balance'', JStr ''0x0'')],
            acct_exists = True\<rparr>"
    by (simp add: fetchAccount_def fetchAccountNonce_def fetchAccountBalance_def fetchResult_def
        emitPayload_def empty_node_def parallel2_def Let_def js_get_def)
  from conjunct1 [OF inst] prefixed account show ?thesis
    by simp
qed

section \<open>Properties of VmSubprovider\<close>

lemma take_own_prefix: "take (length p) (p @ r) = p"
  by simp

lemma take_prefix_hd: "take (length q) m = q \<Longrightarrow> q \<noteq> [] \<Longrightarrow> m \<noteq> [] \<and> hd m = hd q"
  by (cases q; cases m) auto

lemma isNormalVmError_prefix:
  "isNormalVmError msg \<longleftrightarrow>
     (\<exists>rest. msg = NOT_ENOUGH_FUNDS @ rest) \<or> (\<exists>rest. msg = WRONG_NONCE @ rest)"
proof -
  have a: "(take (length NOT_ENOUGH_FUNDS) msg = NOT_ENOUGH_FUNDS) = (\<exists>rest. msg = NOT_ENOUGH_FUNDS @ rest)"
    by (metis append_take_drop_id take_own_prefix)
  have b: "(take (length WRONG_NONCE) msg = WRONG_NONCE) = (\<exists>rest. msg = WRONG_NONCE @ rest)"
    by (metis append_take_drop_id take_own_prefix)
  have excl: "\<not> (take (length NOT_ENOUGH_FUNDS) msg = NOT_ENOUGH_FUNDS \<and> take (length WRONG_NONCE) msg = WRONG_NONCE)"
  proof
    assume h: "take (length NOT_ENOUGH_FUNDS) msg = NOT_ENOUGH_FUNDS \<and> take (length WRONG_NONCE) msg = WRONG_NONCE"
    have "hd msg = hd NOT_ENOUGH_FUNDS"
      using take_prefix_hd [of NOT_ENOUGH_FUNDS msg] h by (simp add: NOT_ENOUGH_FUNDS_def)
    moreover have "hd msg = hd WRONG_NONCE"
      using take_prefix_hd [of WRONG_NONCE msg] h by (simp add: WRONG_NONCE_def)
    ultimately show False
      by (simp add: NOT_ENOUGH_FUNDS_def WRONG_NONCE_def)
  qed
  show ?thesis
    unfolding isNormalVmError_def VM_INTERNAL_ERRORS_def Let_def a [symmetric] b [symmetric]
    using excl by auto
qed

lemma domain_error_result:
  "message err = NOT_ENOUGH_FUNDS @ rest \<or> message err = WRONG_NONCE @ rest \<Longrightarrow>
   runVm_result (Inl err) = Inr (ErrorOnly err)"
  by (auto simp: runVm_result_def isNormalVmError_prefix)

lemma call_tx_made:
  "makeTx hexDecode
     [(''from'', JStr ''0xdead00000000000000000000000000000000beef''),
      (''to'', JStr ''0x00000000000000000000000000000000000000aa'')] (JStr ''0x47e7c4'') =
   Some call_tx"
  by (simp add: makeTx_def senderBytes_def stripHexPrefix_def isHexPrefixed_def hexVal_def
      call_tx_def dead_address_def js_get_def)

lemma anonymous_tx_throws:
  "makeTx fromHex
     [(''to'', JStr ''0x00000000000000000000000000000000000000aa''),
      (''data'', JStr ''0x06fdde03'')] gl = None"
  by (simp add: makeTx_def senderBytes_def js_get_def)

lemma nonce_error_is_normal: "isNormalVmError (message nonce_error)"
  by (auto simp: isNormalVmError_prefix nonce_error_def)

text \<open>
  Claim C1, as stated: every payload whose engine invocation fails with a recognized
  domain error gets a successful response whose body carries a populated error field.
  It fails for \<^verbatim>\<open>eth_call\<close>: the callback is called with no error, but the body is
  \<^verbatim>\<open>{id, jsonrpc, result: '0x'}\<close>, in which \<^verbatim>\<open>error\<close> is \<^verbatim>\<open>undefined\<close>.
\<close>

theorem call_response_has_no_error_field:
  "sendAsync_cb call_payload (runVm_result (Inl nonce_error)) =
     CbOk [(''id'', JStr ''1''), (''jsonrpc'', JStr ''2.0''), (''result'', JStr ''0x'')] \<and>
   js_get [(''id'', JStr ''1''), (''jsonrpc'', JStr ''2.0''), (''result'', JStr ''0x'')] ''error'' =
     JUndefined"
proof -
  have "runVm_result (Inl nonce_error) = Inr (ErrorOnly nonce_error)"
    by (simp add: runVm_result_def nonce_error_is_normal)
  then show ?thesis
    by (simp add: sendAsync_cb_def call_payload_def js_get_def)
qed

text \<open>
  Claim C1, amended: for every \<^verbatim>\<open>eth_call\<close> payload whose engine invocation fails with a
  message that begins with one of the two fixed prefixes, \<^verbatim>\<open>runVm\<close> calls back with no
  error and the object \<^verbatim>\<open>{ error: err }\<close>, and the subprovider calls back with no error
  and the response \<^verbatim>\<open>{id, jsonrpc, result: '0x'}\<close>: a successful response, not a
  transport-level failure, whose body holds the placeholder result and no error field.
  An engine error with any other message is passed to the callback as an error.
\<close>

theorem domain_error_call_response:
  assumes "p_method payload = ''eth_call''"
  shows "(message err = NOT_ENOUGH_FUNDS @ rest \<or> message err = WRONG_NONCE @ rest \<longrightarrow>
            runVm_result (Inl err) = Inr (ErrorOnly err) \<and>
            sendAsync_cb payload (runVm_result (Inl err)) =
              CbOk [(''id'', p_id payload), (''jsonrpc'', p_jsonrpc payload), (''result'', JStr ''0x'')]) \<and>
         (\<not> isNormalVmError (message err) \<longrightarrow>
            sendAsync_cb payload (runVm_result (Inl err)) = CbErr err)"
proof (intro conjI impI)
  assume dom: "message err = NOT_ENOUGH_FUNDS @ rest \<or> message err = WRONG_NONCE @ rest"
  then show r: "runVm_result (Inl err) = Inr (ErrorOnly err)"
    by (rule domain_error_result)
  from assms show "sendAsync_cb payload (runVm_result (Inl err)) =
      CbOk [(''id'', p_id payload), (''jsonrpc'', p_jsonrpc payload), (''result'', JStr ''0x'')]"
    by (simp add: r sendAsync_cb_def)
next
  assume "\<not> isNormalVmError (message err)"
  then show "sendAsync_cb payload (runVm_result (Inl err)) = CbErr err"
    by (simp add: runVm_result_def sendAsync_cb_def)
qed

theorem domain_error_call_response_witness:
  "runVm_result (Inl funds_error) = Inr (ErrorOnly funds_error) \<and>
   sendAsync_cb call_payload (runVm_result (Inl funds_error)) =
     CbOk [(''id'', p_id call_payload), (''jsonrpc'', p_jsonrpc call_payload), (''result'', JStr ''0x'')] \<and>
   sendAsync_cb call_payload (runVm_result (Inl (Error ''out of memory''))) =
     CbErr (Error ''out of memory'')"
proof -
  have m: "p_method call_payload = ''eth_call''"
    by (simp add: call_payload_def)
  have dom: "message funds_error = NOT_ENOUGH_FUNDS @ '' The upfront cost is: 21000'' \<or>
      message funds_error = WRONG_NONCE @ '' The upfront cost is: 21000''"
    by (simp add: funds_error_def)
  have other: "\<not> isNormalVmError (message (Error ''out of memory''))"
    by (simp add: isNormalVmError_def VM_INTERNAL_ERRORS_def NOT_ENOUGH_FUNDS_def WRONG_NONCE_def)
  note a = domain_error_call_response [OF m, of funds_error "'' The upfront cost is: 21000''"]
  note b = domain_error_call_response [OF m, of "Error ''out of memory''" "[]"]
  from mp [OF conjunct1 [OF a] dom] mp [OF conjunct2 [OF b] other] show ?thesis
    by (elim conjE) (intro conjI, assumption+)
qed

text \<open>
  Claim C10: for every \<^verbatim>\<open>eth_estimateGas\<close> payload whose engine invocation fails with a
  recognized domain-level error, \<^verbatim>\<open>runVm\<close> passes an object with only an error field to
  the callback of \<^verbatim>\<open>sendAsync\<close>; its \<^verbatim>\<open>gasUsed\<close> is absent, the \<^verbatim>\<open>eth_estimateGas\<close> branch
  calls \<^verbatim>\<open>toString\<close> on it and throws, so no response is produced. The path is
  reachable: it is the run of a subprovider that receives the request, builds its
  transaction and starts the engine, which then reports the error.
\<close>

theorem estimateGas_domain_error_throws:
  assumes "p_method payload = ''eth_estimateGas''"
    and "message err = NOT_ENOUGH_FUNDS @ rest \<or> message err = WRONG_NONCE @ rest"
  shows "runVm_result (Inl err) = Inr (ErrorOnly err) \<and>
         results_gasUsed (ErrorOnly err) = None \<and>
         sendAsync_cb payload (runVm_result (Inl err)) = Throws ''TypeError'' \<and>
         (p_params payload = txParams # others \<and> makeTx fromHex txParams gl = Some tx \<longrightarrow>
            trace (vm_run [Request payload, EngineDone 0 (Inl err)] (VmSubprovider fromHex bn gl)) =
              [GateStop 0,
               EngineStart 0 tx (addHexPrefix (hexOfBuffer bn)),
               EngineEnd 0, GateGo 0,
               Respond 0 (Throws ''TypeError'')])"
proof -
  have r: "runVm_result (Inl err) = Inr (ErrorOnly err)"
    using assms(2) by (rule domain_error_result)
  have t: "sendAsync_cb payload (runVm_result (Inl err)) = Throws ''TypeError''"
    using assms(1) by (simp add: r sendAsync_cb_def)
  have run: "p_params payload = txParams # others \<and> makeTx fromHex txParams gl = Some tx \<longrightarrow>
      trace (vm_run [Request payload, EngineDone 0 (Inl err)] (VmSubprovider fromHex bn gl)) =
        [GateStop 0,
         EngineStart 0 tx (addHexPrefix (hexOfBuffer bn)),
         EngineEnd 0, GateGo 0,
         Respond 0 (Throws ''TypeError'')]"
    by (simp add: VmSubprovider_def Stoplight_await_def Stoplight_go_def Stoplight_stop_def
        runVm_continuation_def Let_def t)
  from r t run show ?thesis by simp
qed

theorem estimateGas_domain_error_throws_witness:
  "sendAsync_cb estimate_payload (runVm_result (Inl nonce_error)) = Throws ''TypeError'' \<and>
   last (trace (vm_run [Request estimate_payload, EngineDone 0 (Inl nonce_error)]
     (VmSubprovider hexDecode [0x10] (JStr ''0x47e7c4'')))) = Respond 0 (Throws ''TypeError'')"
proof -
  have m: "p_method estimate_payload = ''eth_estimateGas''"
    by (simp add: estimate_payload_def)
  have dom: "message nonce_error = NOT_ENOUGH_FUNDS @ '' 3 tx has nonce of: 0'' \<or>
      message nonce_error = WRONG_NONCE @ '' 3 tx has nonce of: 0''"
    by (simp add: nonce_error_def)
  have ps: "p_params estimate_payload =
      [(''from'', JStr ''0xdead00000000000000000000000000000000beef''),
       (''to'', JStr ''0x00000000000000000000000000000000000000aa'')] # [] \<and>
      makeTx hexDecode
        [(''from'', JStr ''0xdead00000000000000000000000000000000beef''),
         (''to'', JStr ''0x00000000000000000000000000000000000000aa'')] (JStr ''0x47e7c4'') =
      Some call_tx"
    by (simp add: estimate_payload_def call_payload_def call_tx_made)
  note inst = estimateGas_domain_error_throws [OF m dom,
      of "[(''from'', JStr ''0xdead00000000000000000000000000000000beef''),
           (''to'', JStr ''0x00000000000000000000000000000000000000aa'')]"
         "[]" hexDecode "JStr ''0x47e7c4''" call_tx "[0x10]"]
  from inst have thrown: "sendAsync_cb estimate_payload (runVm_result (Inl nonce_error)) =
      Throws ''TypeError''"
    by (elim conjE)
  from conjunct2 [OF conjunct2 [OF conjunct2 [OF inst]]] ps
  have tr: "trace (vm_run [Request estimate_payload, EngineDone 0 (Inl nonce_error)]
      (VmSubprovider hexDecode [0x10] (JStr ''0x47e7c4''))) =
      [GateStop 0,
       EngineStart 0 call_tx (addHexPrefix (hexOfBuffer [0x10])),
       EngineEnd 0, GateGo 0,
       Respond 0 (Throws ''TypeError'')]"
    by (rule mp)
  show ?thesis
    unfolding tr using thrown by simp
qed

subsection \<open>Counting the gate's operations\<close>

text \<open>What a continuation, and a list of released continuations, add to the trace.\<close>

lemmas count_defs = stop_count_def go_count_def end_count_def start_count_def

lemma vm_invD:
  assumes "vm_inv s"
  shows "go_count i (trace s) = end_count i (trace s) \<and>
     start_count i (trace s) = end_count i (trace s) + count_list (map fst (running s)) i \<and>
     start_count i (trace s) \<le> stop_count i (trace s) \<and>
     stop_count i (trace s) + count_list (map fst (queue (ready s))) i \<le> (if i < next_id s then 1 else 0)"
  using assms unfolding vm_inv_def by (rule spec)

lemma cont_effect:
  "go_count i (trace (runVm_continuation c s)) = go_count i (trace s) \<and>
   end_count i (trace (runVm_continuation c s)) = end_count i (trace s) \<and>
   stop_count i (trace (runVm_continuation c s)) = stop_count i (trace s) + (if fst c = i then 1 else 0) \<and>
   start_count i (trace (runVm_continuation c s)) + count_list (map fst (running s)) i =
     start_count i (trace s) + count_list (map fst (running (runVm_continuation c s))) i \<and>
   start_count i (trace (runVm_continuation c s)) \<le> start_count i (trace s) + (if fst c = i then 1 else 0) \<and>
   next_id (runVm_continuation c s) = next_id s \<and>
   queue (ready (runVm_continuation c s)) = queue (ready s) \<and>
   \<not> isOpen (ready (runVm_continuation c s))"
  by (simp add: runVm_continuation_def Let_def count_defs Stoplight_stop_def
      split: list.splits option.splits)

lemma fold_effect:
  "go_count i (trace (fold runVm_continuation cs s)) = go_count i (trace s) \<and>
   end_count i (trace (fold runVm_continuation cs s)) = end_count i (trace s) \<and>
   stop_count i (trace (fold runVm_continuation cs s)) = stop_count i (trace s) + count_list (map fst cs) i \<and>
   start_count i (trace (fold runVm_continuation cs s)) + count_list (map fst (running s)) i =
     start_count i (trace s) + count_list (map fst (running (fold runVm_continuation cs s))) i \<and>
   start_count i (trace (fold runVm_continuation cs s)) \<le> start_count i (trace s) + count_list (map fst cs) i \<and>
   next_id (fold runVm_continuation cs s) = next_id s \<and>
   queue (ready (fold runVm_continuation cs s)) = queue (ready s) \<and>
   isOpen (ready (fold runVm_continuation cs s)) = (cs = [] \<and> isOpen (ready s))"
proof (induction cs arbitrary: s)
  case Nil
  then show ?case by simp
next
  case (Cons c cs)
  note step = cont_effect [of i c s]
  note rest = Cons.IH [of "runVm_continuation c s"]
  from step rest show ?case
    by (simp split: if_splits)
qed

lemma count_filter_other:
  "count_list (map fst (filter (\<lambda>c. fst c \<noteq> i) xs)) j = (if j = i then 0 else count_list (map fst xs) j)"
  by (induction xs) auto

lemma map_of_count: "map_of xs i = Some p \<Longrightarrow> 1 \<le> count_list (map fst xs) i"
  by (induction xs) (auto split: if_splits)

lemma inv_init: "vm_inv (VmSubprovider fromHex bn gl)"
  by (simp add: vm_inv_def VmSubprovider_def count_defs)

lemma inv_step: "vm_inv s \<Longrightarrow> vm_inv (vm_step e s)"
proof (cases e)
  case (Request payload)
  assume inv: "vm_inv s"
  show ?thesis
  proof (cases "isOpen (ready s)")
    case True
    let ?s0 = "s\<lparr>next_id := Suc (next_id s)\<rparr>"
    have step: "vm_step e s = runVm_continuation (next_id s, payload) ?s0"
      using True Request by (simp add: Stoplight_await_def Let_def)
    show ?thesis
      unfolding vm_inv_def step
    proof (intro allI)
      fix i
      note eff = cont_effect [of i "(next_id s, payload)" ?s0]
      note a0 = vm_invD [OF inv, of i]
      from a0 eff show "go_count i (trace (runVm_continuation (next_id s, payload) ?s0)) =
          end_count i (trace (runVm_continuation (next_id s, payload) ?s0)) \<and>
         start_count i (trace (runVm_continuation (next_id s, payload) ?s0)) =
          end_count i (trace (runVm_continuation (next_id s, payload) ?s0)) +
          count_list (map fst (running (runVm_continuation (next_id s, payload) ?s0))) i \<and>
         start_count i (trace (runVm_continuation (next_id s, payload) ?s0)) \<le>
          stop_count i (trace (runVm_continuation (next_id s, payload) ?s0)) \<and>
         stop_count i (trace (runVm_continuation (next_id s, payload) ?s0)) +
          count_list (map fst (queue (ready (runVm_continuation (next_id s, payload) ?s0)))) i \<le>
          (if i < next_id (runVm_continuation (next_id s, payload) ?s0) then 1 else 0)"
        by (simp split: if_splits)
    qed
  next
    case False
    have step: "vm_step e s =
        s\<lparr>ready := (ready s)\<lparr>queue := queue (ready s) @ [(next_id s, payload)]\<rparr>, next_id := Suc (next_id s)\<rparr>"
      using False Request by (simp add: Stoplight_await_def Let_def)
    show ?thesis
      unfolding vm_inv_def step
    proof (intro allI)
      fix i
      note a0 = vm_invD [OF inv, of i]
      from a0 show "go_count i (trace (s\<lparr>ready := (ready s)\<lparr>queue := queue (ready s) @ [(next_id s, payload)]\<rparr>, next_id := Suc (next_id s)\<rparr>)) =
          end_count i (trace (s\<lparr>ready := (ready s)\<lparr>queue := queue (ready s) @ [(next_id s, payload)]\<rparr>, next_id := Suc (next_id s)\<rparr>)) \<and>
         start_count i (trace (s\<lparr>ready := (ready s)\<lparr>queue := queue (ready s) @ [(next_id s, payload)]\<rparr>, next_id := Suc (next_id s)\<rparr>)) =
          end_count i (trace (s\<lparr>ready := (ready s)\<lparr>queue := queue (ready s) @ [(next_id s, payload)]\<rparr>, next_id := Suc (next_id s)\<rparr>)) +
          count_list (map fst (running (s\<lparr>ready := (ready s)\<lparr>queue := queue (ready s) @ [(next_id s, payload)]\<rparr>, next_id := Suc (next_id s)\<rparr>))) i \<and>
         start_count i (trace (s\<lparr>ready := (ready s)\<lparr>queue := queue (ready s) @ [(next_id s, payload)]\<rparr>, next_id := Suc (next_id s)\<rparr>)) \<le>
          stop_count i (trace (s\<lparr>ready := (ready s)\<lparr>queue := queue (ready s) @ [(next_id s, payload)]\<rparr>, next_id := Suc (next_id s)\<rparr>)) \<and>
         stop_count i (trace (s\<lparr>ready := (ready s)\<lparr>queue := queue (ready s) @ [(next_id s, payload)]\<rparr>, next_id := Suc (next_id s)\<rparr>)) +
          count_list (map fst (queue (ready (s\<lparr>ready := (ready s)\<lparr>queue := queue (ready s) @ [(next_id s, payload)]\<rparr>, next_id := Suc (next_id s)\<rparr>)))) i \<le>
          (if i < next_id (s\<lparr>ready := (ready s)\<lparr>queue := queue (ready s) @ [(next_id s, payload)]\<rparr>, next_id := Suc (next_id s)\<rparr>) then 1 else 0)"
        by (simp split: if_splits)
    qed
  qed
next
  case (EngineDone i r)
  assume inv: "vm_inv s"
  show ?thesis
  proof (cases "map_of (running s) i")
    case None
    with EngineDone inv show ?thesis by simp
  next
    case (Some payload)
    let ?s1 = "s\<lparr>ready := (ready s)\<lparr>isOpen := True, queue := []\<rparr>,
                  running := filter (\<lambda>c. fst c \<noteq> i) (running s),
                  trace := trace s @ [EngineEnd i, GateGo i]\<rparr>"
    let ?s2 = "fold runVm_continuation (queue (ready s)) ?s1"
    have step: "vm_step e s = ?s2\<lparr>trace := trace ?s2 @ [Respond i (sendAsync_cb payload (runVm_result r))]\<rparr>"
      using Some EngineDone by (simp add: Stoplight_go_def Let_def)
    have run1: "1 \<le> count_list (map fst (running s)) i"
      using Some by (rule map_of_count)
    show ?thesis
      unfolding vm_inv_def step
    proof (intro allI)
      fix j
      note eff = fold_effect [of j "queue (ready s)" ?s1]
      note a = vm_invD [OF inv, of j]
      have g1: "go_count j (trace ?s1) = go_count j (trace s) + (if j = i then 1 else 0)"
        by (simp add: count_defs)
      have e1: "end_count j (trace ?s1) = end_count j (trace s) + (if j = i then 1 else 0)"
        by (simp add: count_defs)
      have st1: "stop_count j (trace ?s1) = stop_count j (trace s)"
        by (simp add: count_defs)
      have sa1: "start_count j (trace ?s1) = start_count j (trace s)"
        by (simp add: count_defs)
      have r1: "count_list (map fst (running ?s1)) j = (if j = i then 0 else count_list (map fst (running s)) j)"
        by (simp add: count_filter_other)
      have n1: "next_id ?s1 = next_id s" by simp
      have tr: "\<And>k. go_count k (trace ?s2 @ [Respond i (sendAsync_cb payload (runVm_result r))]) = go_count k (trace ?s2)
          \<and> end_count k (trace ?s2 @ [Respond i (sendAsync_cb payload (runVm_result r))]) = end_count k (trace ?s2)
          \<and> stop_count k (trace ?s2 @ [Respond i (sendAsync_cb payload (runVm_result r))]) = stop_count k (trace ?s2)
          \<and> start_count k (trace ?s2 @ [Respond i (sendAsync_cb payload (runVm_result r))]) = start_count k (trace ?s2)"
        by (simp add: count_defs)
      have q2: "queue (ready ?s2) = []"
        using eff by simp
      from a eff g1 e1 st1 sa1 r1 n1 run1 q2
      show "go_count j (trace (?s2\<lparr>trace := trace ?s2 @ [Respond i (sendAsync_cb payload (runVm_result r))]\<rparr>)) =
          end_count j (trace (?s2\<lparr>trace := trace ?s2 @ [Respond i (sendAsync_cb payload (runVm_result r))]\<rparr>)) \<and>
         start_count j (trace (?s2\<lparr>trace := trace ?s2 @ [Respond i (sendAsync_cb payload (runVm_result r))]\<rparr>)) =
          end_count j (trace (?s2\<lparr>trace := trace ?s2 @ [Respond i (sendAsync_cb payload (runVm_result r))]\<rparr>)) +
          count_list (map fst (running (?s2\<lparr>trace := trace ?s2 @ [Respond i (sendAsync_cb payload (runVm_result r))]\<rparr>))) j \<and>
         start_count j (trace (?s2\<lparr>trace := trace ?s2 @ [Respond i (sendAsync_cb payload (runVm_result r))]\<rparr>)) \<le>
          stop_count j (trace (?s2\<lparr>trace := trace ?s2 @ [Respond i (sendAsync_cb payload (runVm_result r))]\<rparr>)) \<and>
         stop_count j (trace (?s2\<lparr>trace := trace ?s2 @ [Respond i (sendAsync_cb payload (runVm_result r))]\<rparr>)) +
          count_list (map fst (queue (ready (?s2\<lparr>trace := trace ?s2 @ [Respond i (sendAsync_cb payload (runVm_result r))]\<rparr>)))) j \<le>
          (if j < next_id (?s2\<lparr>trace := trace ?s2 @ [Respond i (sendAsync_cb payload (runVm_result r))]\<rparr>) then 1 else 0)"
        by (simp add: tr split: if_splits)
    qed
  qed
qed

lemma inv_run: "vm_inv s \<Longrightarrow> vm_inv (vm_run es s)"
  by (induction es arbitrary: s) (simp_all add: inv_step)

lemma completion_effect:
  assumes m: "map_of (running s) i = Some payload"
  shows "go_count i (trace (vm_step (EngineDone i r) s)) = go_count i (trace s) + 1 \<and>
         end_count i (trace (vm_step (EngineDone i r) s)) = end_count i (trace s) + 1 \<and>
         queue (ready (vm_step (EngineDone i r) s)) = [] \<and>
         isOpen (ready (vm_step (EngineDone i r) s)) = (queue (ready s) = []) \<and>
         (\<forall>j. stop_count j (trace (vm_step (EngineDone i r) s)) =
                stop_count j (trace s) + count_list (map fst (queue (ready s))) j)"
proof -
  let ?s1 = "s\<lparr>ready := (ready s)\<lparr>isOpen := True, queue := []\<rparr>,
                running := filter (\<lambda>c. fst c \<noteq> i) (running s),
                trace := trace s @ [EngineEnd i, GateGo i]\<rparr>"
  let ?s2 = "fold runVm_continuation (queue (ready s)) ?s1"
  have step: "vm_step (EngineDone i r) s =
      ?s2\<lparr>trace := trace ?s2 @ [Respond i (sendAsync_cb payload (runVm_result r))]\<rparr>"
    using m by (simp add: Stoplight_go_def Let_def)
  have g: "go_count i (trace ?s2) = go_count i (trace s) + 1"
    using fold_effect [of i "queue (ready s)" ?s1] by (simp add: go_count_def)
  have e: "end_count i (trace ?s2) = end_count i (trace s) + 1"
    using fold_effect [of i "queue (ready s)" ?s1] by (simp add: end_count_def)
  have q: "queue (ready ?s2) = []"
    using fold_effect [of i "queue (ready s)" ?s1] by simp
  have opened: "isOpen (ready ?s2) = (queue (ready s) = [])"
    using fold_effect [of i "queue (ready s)" ?s1] by simp
  have stops: "\<forall>j. stop_count j (trace ?s2) =
      stop_count j (trace s) + count_list (map fst (queue (ready s))) j"
  proof
    fix j
    show "stop_count j (trace ?s2) =
        stop_count j (trace s) + count_list (map fst (queue (ready s))) j"
      using fold_effect [of j "queue (ready s)" ?s1] by (simp add: stop_count_def)
  qed
  from g e q opened stops show ?thesis
    unfolding step by (simp add: count_defs)
qed

text \<open>
  The release at completion. For every invocation whose engine invocation is in
  progress, the completion of that engine invocation, with results, a domain error or
  any other error, releases the gate once: \<^verbatim>\<open>go\<close> is called once, every queued
  continuation is released and runs (it closes the gate again), and the gate is open
  afterwards when nobody was waiting. In every run of the subprovider an invocation
  closes the gate at most once, starts the engine only after closing the gate, has
  called \<^verbatim>\<open>go\<close> exactly as often as its engine invocation has completed, and
  every engine invocation it started has completed or is in progress.
\<close>

lemma completion_releases_gate:
  "(\<forall>s payload r. map_of (running s) i = Some payload \<longrightarrow>
      go_count i (trace (vm_step (EngineDone i r) s)) = go_count i (trace s) + 1 \<and>
      end_count i (trace (vm_step (EngineDone i r) s)) = end_count i (trace s) + 1 \<and>
      queue (ready (vm_step (EngineDone i r) s)) = [] \<and>
      isOpen (ready (vm_step (EngineDone i r) s)) = (queue (ready s) = []) \<and>
      (\<forall>j. stop_count j (trace (vm_step (EngineDone i r) s)) =
             stop_count j (trace s) + count_list (map fst (queue (ready s))) j)) \<and>
   go_count i (trace (vm_run ins (VmSubprovider fromHex bn gl))) =
     end_count i (trace (vm_run ins (VmSubprovider fromHex bn gl))) \<and>
   start_count i (trace (vm_run ins (VmSubprovider fromHex bn gl))) =
     end_count i (trace (vm_run ins (VmSubprovider fromHex bn gl))) +
     count_list (map fst (running (vm_run ins (VmSubprovider fromHex bn gl)))) i \<and>
   start_count i (trace (vm_run ins (VmSubprovider fromHex bn gl))) \<le>
     stop_count i (trace (vm_run ins (VmSubprovider fromHex bn gl))) \<and>
   stop_count i (trace (vm_run ins (VmSubprovider fromHex bn gl))) \<le> 1"
proof -
  have "vm_inv (vm_run ins (VmSubprovider fromHex bn gl))"
    by (rule inv_run [OF inv_init])
  from vm_invD [OF this, of i]
  have counts: "go_count i (trace (vm_run ins (VmSubprovider fromHex bn gl))) =
       end_count i (trace (vm_run ins (VmSubprovider fromHex bn gl))) \<and>
     start_count i (trace (vm_run ins (VmSubprovider fromHex bn gl))) =
       end_count i (trace (vm_run ins (VmSubprovider fromHex bn gl))) +
       count_list (map fst (running (vm_run ins (VmSubprovider fromHex bn gl)))) i \<and>
     start_count i (trace (vm_run ins (VmSubprovider fromHex bn gl))) \<le>
       stop_count i (trace (vm_run ins (VmSubprovider fromHex bn gl))) \<and>
     stop_count i (trace (vm_run ins (VmSubprovider fromHex bn gl))) \<le> 1"
    by (simp split: if_splits)
  have step: "\<forall>s payload r. map_of (running s) i = Some payload \<longrightarrow>
      go_count i (trace (vm_step (EngineDone i r) s)) = go_count i (trace s) + 1 \<and>
      end_count i (trace (vm_step (EngineDone i r) s)) = end_count i (trace s) + 1 \<and>
      queue (ready (vm_step (EngineDone i r) s)) = [] \<and>
      isOpen (ready (vm_step (EngineDone i r) s)) = (queue (ready s) = []) \<and>
      (\<forall>j. stop_count j (trace (vm_step (EngineDone i r) s)) =
             stop_count j (trace s) + count_list (map fst (queue (ready s))) j)"
    by (intro allI impI) (rule completion_effect)
  from step counts show ?thesis
    by (elim conjE) (intro conjI, assumption+)
qed

lemma completion_releases_gate_example:
  "go_count 0 (trace (vm_run [Request call_payload, Request estimate_payload,
       EngineDone 0 (Inl nonce_error), EngineDone 1 (Inl (Error ''out of memory''))]
     (VmSubprovider hexDecode [0x10] (JStr ''0x47e7c4'')))) = 1 \<and>
   go_count 1 (trace (vm_run [Request call_payload, Request estimate_payload,
       EngineDone 0 (Inl nonce_error), EngineDone 1 (Inl (Error ''out of memory''))]
     (VmSubprovider hexDecode [0x10] (JStr ''0x47e7c4'')))) = 1 \<and>
   isOpen (ready (vm_step (EngineDone 0 (Inr plain_results))
     (vm_run [Request call_payload] (VmSubprovider hexDecode [0x10] (JStr ''0x47e7c4'')))))"
proof -
  let ?ins = "[Request call_payload, Request estimate_payload,
       EngineDone 0 (Inl nonce_error), EngineDone 1 (Inl (Error ''out of memory''))]"
  let ?s = "vm_run ?ins (VmSubprovider hexDecode [0x10] (JStr ''0x47e7c4''))"
  let ?one = "vm_run [Request call_payload] (VmSubprovider hexDecode [0x10] (JStr ''0x47e7c4''))"
  have one: "?one = (VmSubprovider hexDecode [0x10] (JStr ''0x47e7c4''))
      \<lparr>ready := \<lparr>isOpen = False, queue = []\<rparr>, next_id := 1, running := [(0, call_payload)],
       trace := [GateStop 0, EngineStart 0 call_tx ''0x10'']\<rparr>"
    by (simp add: VmSubprovider_def Stoplight_await_def Stoplight_stop_def runVm_continuation_def
        Let_def call_payload_def [THEN arg_cong [of _ _ p_params]] call_tx_made
        addHexPrefix_def isHexPrefixed_def hexOfBuffer_def hexByte_def hexDigit_def)
  have inprogress: "map_of (running ?one) 0 = Some call_payload"
    unfolding one by simp
  have nobody: "queue (ready ?one) = []"
    unfolding one by simp
  have e0: "end_count 0 (trace ?s) = 1"
    by (simp add: VmSubprovider_def Stoplight_await_def Stoplight_go_def Stoplight_stop_def
        runVm_continuation_def Let_def end_count_def call_payload_def estimate_payload_def
        call_tx_made)
  have e1: "end_count 1 (trace ?s) = 1"
    by (simp add: VmSubprovider_def Stoplight_await_def Stoplight_go_def Stoplight_stop_def
        runVm_continuation_def Let_def end_count_def call_payload_def estimate_payload_def
        call_tx_made)
  note at0 = completion_releases_gate [of 0 ?ins hexDecode "[0x10]" "JStr ''0x47e7c4''"]
  note at1 = completion_releases_gate [of 1 ?ins hexDecode "[0x10]" "JStr ''0x47e7c4''"]
  from at0 have step: "map_of (running ?one) 0 = Some call_payload \<longrightarrow>
      isOpen (ready (vm_step (EngineDone 0 (Inr plain_results)) ?one)) = (queue (ready ?one) = [])"
    by blast
  from at0 at1 e0 e1 have counts: "go_count 0 (trace ?s) = 1 \<and> go_count 1 (trace ?s) = 1"
    by simp
  from step inprogress nobody have "isOpen (ready (vm_step (EngineDone 0 (Inr plain_results)) ?one))"
    by blast
  with counts show ?thesis
    by blast
qed

text \<open>
  A gate that is closed while the engine has no run in progress stays closed: nothing
  is left that could call \<^verbatim>\<open>go\<close>, every later request only joins the queue, and
  nothing more happens.
\<close>

lemma closed_gate_stays_closed:
  "running s = [] \<Longrightarrow> \<not> isOpen (ready s) \<Longrightarrow>
   running (vm_run ins s) = [] \<and> \<not> isOpen (ready (vm_run ins s)) \<and>
   trace (vm_run ins s) = trace s \<and>
   queue (ready (vm_run ins s)) = queue (ready s) @ requests_from (next_id s) ins"
proof (induction ins arbitrary: s)
  case Nil
  then show ?case by simp
next
  case (Cons e ins)
  have step: "running (vm_step e s) = [] \<and> \<not> isOpen (ready (vm_step e s)) \<and>
      trace (vm_step e s) = trace s \<and>
      queue (ready (vm_step e s)) @ requests_from (next_id (vm_step e s)) ins =
        queue (ready s) @ requests_from (next_id s) (e # ins)"
    using Cons.prems by (cases e) (simp_all add: Stoplight_await_def Let_def)
  from Cons.IH [of "vm_step e s"] step show ?case
    by simp
qed

lemma throwing_request:
  assumes "case p_params payload of [] \<Rightarrow> True | txParams # _ \<Rightarrow> makeTx fromHex txParams gl = None"
  shows "vm_step (Request payload) (VmSubprovider fromHex bn gl) =
     \<lparr>ready = \<lparr>isOpen = False, queue = []\<rparr>, vm_fromHex = fromHex, vm_blockNumber = bn,
      vm_blockGasLimit = gl, next_id = Suc 0, running = [],
      trace = [GateStop 0, Uncaught 0 ''TypeError'']\<rparr>"
  using assms
  by (simp add: VmSubprovider_def Stoplight_await_def Stoplight_stop_def runVm_continuation_def
      Let_def split: list.splits)

text \<open>
  Claim C8: every invocation that acquires the gate releases it exactly once. The code
  releases the gate only in the callback of \<^verbatim>\<open>vm.runTx\<close>, so an invocation whose
  continuation throws between \<^verbatim>\<open>stop()\<close> and \<^verbatim>\<open>vm.runTx\<close> acquires the gate and never
  releases it. For every request without parameters or whose transaction cannot be
  built (a call that names no sender), arriving at a new subprovider: the invocation
  closes the gate once and never calls \<^verbatim>\<open>go\<close>, the engine is not started, and whatever
  arrives afterwards the gate stays closed, every later request waits in the queue, and
  nothing more happens: no engine run, no response.
\<close>

theorem gate_never_released_after_throw:
  assumes "case p_params payload of [] \<Rightarrow> True | txParams # _ \<Rightarrow> makeTx fromHex txParams gl = None"
  shows "trace (vm_run (Request payload # ins) (VmSubprovider fromHex bn gl)) =
           [GateStop 0, Uncaught 0 ''TypeError''] \<and>
         stop_count 0 (trace (vm_run (Request payload # ins) (VmSubprovider fromHex bn gl))) = 1 \<and>
         go_count 0 (trace (vm_run (Request payload # ins) (VmSubprovider fromHex bn gl))) = 0 \<and>
         \<not> isOpen (ready (vm_run (Request payload # ins) (VmSubprovider fromHex bn gl))) \<and>
         running (vm_run (Request payload # ins) (VmSubprovider fromHex bn gl)) = [] \<and>
         queue (ready (vm_run (Request payload # ins) (VmSubprovider fromHex bn gl))) =
           requests_from 1 ins"
proof -
  define s1 where "s1 = vm_step (Request payload) (VmSubprovider fromHex bn gl)"
  have eq: "s1 =
     \<lparr>ready = \<lparr>isOpen = False, queue = []\<rparr>, vm_fromHex = fromHex, vm_blockNumber = bn,
      vm_blockGasLimit = gl, next_id = Suc 0, running = [],
      trace = [GateStop 0, Uncaught 0 ''TypeError'']\<rparr>"
    unfolding s1_def using assms by (rule throwing_request)
  have idle: "running s1 = []" and closed: "\<not> isOpen (ready s1)"
    by (simp_all add: eq)
  have tr: "trace s1 = [GateStop 0, Uncaught 0 ''TypeError'']"
    and q: "queue (ready s1) = []" and n: "next_id s1 = 1"
    by (simp_all add: eq)
  from closed_gate_stays_closed [OF idle closed, of ins]
  have after: "running (vm_run ins s1) = [] \<and> \<not> isOpen (ready (vm_run ins s1)) \<and>
      trace (vm_run ins s1) = [GateStop 0, Uncaught 0 ''TypeError''] \<and>
      queue (ready (vm_run ins s1)) = requests_from 1 ins"
    by (simp add: tr q n)
  have run: "vm_run (Request payload # ins) (VmSubprovider fromHex bn gl) = vm_run ins s1"
    unfolding s1_def by (rule vm_run.simps(2))
  from after show ?thesis
    unfolding run by (simp add: stop_count_def go_count_def)
qed

theorem gate_never_released_after_throw_witness:
  "trace (vm_run [Request anonymous_call, Request call_payload, Request estimate_payload]
     (VmSubprovider hexDecode [0x10] (JStr ''0x47e7c4''))) = [GateStop 0, Uncaught 0 ''TypeError''] \<and>
   \<not> isOpen (ready (vm_run [Request anonymous_call, Request call_payload, Request estimate_payload]
     (VmSubprovider hexDecode [0x10] (JStr ''0x47e7c4'')))) \<and>
   running (vm_run [Request anonymous_call, Request call_payload, Request estimate_payload]
     (VmSubprovider hexDecode [0x10] (JStr ''0x47e7c4''))) = [] \<and>
   queue (ready (vm_run [Request anonymous_call, Request call_payload, Request estimate_payload]
     (VmSubprovider hexDecode [0x10] (JStr ''0x47e7c4'')))) =
     [(1, call_payload), (2, estimate_payload)]"
proof -
  have nosender: "case p_params anonymous_call of [] \<Rightarrow> True
      | txParams # _ \<Rightarrow> makeTx hexDecode txParams (JStr ''0x47e7c4'') = None"
    by (simp add: anonymous_call_def anonymous_tx_throws)
  have waiting: "requests_from 1 [Request call_payload, Request estimate_payload] =
      [(1, call_payload), (2, estimate_payload)]"
    by simp
  note inst = gate_never_released_after_throw
    [OF nosender, of "[Request call_payload, Request estimate_payload]" "[0x10]"]
  from inst show ?thesis
    unfolding waiting by (elim conjE) (intro conjI, assumption+)
qed

text \<open>
  Claim C9 says that the engine invocations of concurrent requests on one gate never
  overlap. With the gate as the specification describes it, they do as soon as two
  requests wait: when the first run completes, \<^verbatim>\<open>go\<close> releases every queued
  continuation, each calls \<^verbatim>\<open>stop\<close> without looking at the gate and starts the engine,
  and the second and third engine invocations are in progress together.
\<close>

theorem released_waiters_overlap:
  assumes "p_params p1 = t1 # m1" and "p_params p2 = t2 # m2" and "p_params p3 = t3 # m3"
    and "makeTx fromHex t1 gl = Some x1" and "makeTx fromHex t2 gl = Some x2"
    and "makeTx fromHex t3 gl = Some x3"
  shows "running (vm_run [Request p1, Request p2, Request p3, EngineDone 0 r]
           (VmSubprovider fromHex bn gl)) = [(1, p2), (2, p3)] \<and>
         trace (vm_run [Request p1, Request p2, Request p3, EngineDone 0 r]
           (VmSubprovider fromHex bn gl)) =
          [GateStop 0, EngineStart 0 x1 (addHexPrefix (hexOfBuffer bn)),
           EngineEnd 0, GateGo 0,
           GateStop 1, EngineStart 1 x2 (addHexPrefix (hexOfBuffer bn)),
           GateStop 2, EngineStart 2 x3 (addHexPrefix (hexOfBuffer bn)),
           Respond 0 (sendAsync_cb p1 (runVm_result r))]"
  using assms
  by (simp add: VmSubprovider_def Stoplight_await_def Stoplight_go_def Stoplight_stop_def
      runVm_continuation_def Let_def)

theorem released_waiters_overlap_witness:
  "map fst (running (vm_run [Request call_payload, Request call_payload, Request call_payload,
       EngineDone 0 (Inr plain_results)] (VmSubprovider hexDecode [0x10] (JStr ''0x47e7c4'')))) = [1, 2]"
proof -
  have ps: "p_params call_payload =
      [(''from'', JStr ''0xdead00000000000000000000000000000000beef''),
       (''to'', JStr ''0x00000000000000000000000000000000000000aa'')] # []"
    by (simp add: call_payload_def)
  from released_waiters_overlap [OF ps ps ps call_tx_made call_tx_made call_tx_made,
      of "Inr plain_results" "[0x10]"]
  show ?thesis by simp
qed

section \<open>Properties of HookedWalletSubprovider\<close>












end
